theory Spec2Isabelle
  imports Complex_Main "HOL-Library.AList" "HOL-Library.Multiset" "HOL-Library.Sublist"
begin

section \<open>Data model of \<^verbatim>\<open>SHPImporter.ts\<close>\<close>

text \<open>
  The importer is glue between three external systems: the workspace (a tree of named
  items with lazy byte fetch), the shapefile parser \<^verbatim>\<open>shpjs\<close>, and the host drawing
  editor. The embedding keeps the program's own functions as HOL functions and makes
  every call that leaves the program an entry of an explicit history of events.

  Modelling decisions, each of which is visible in the definitions below:
  \<^item> A JavaScript string is a \<open>string\<close>; its characters stand for UTF-16 code units.
  \<^item> A JavaScript object used as a dictionary (\<^verbatim>\<open>Record<string, T>\<close>) is an association
    list in creation order of its own keys. Writing an existing key keeps its place and
    writing a new key appends it, which is \<open>AList.update\<close>. Keys inherited from
    \<^verbatim>\<open>Object.prototype\<close> are not part of the model.
  \<^item> A JavaScript number is the real number it denotes; \<^verbatim>\<open>NaN\<close> and the infinities are
    not represented.
  \<^item> An \<^verbatim>\<open>ArrayBuffer\<close> is the list of its bytes; the typed array returned by
    \<^verbatim>\<open>item.get()\<close> is identified with its \<^verbatim>\<open>.buffer\<close>.
  \<^item> An exception is a value of type \<open>exn\<close>; a computation returns \<open>Inl e\<close> when it
    throws \<open>e\<close>.
  \<^item> The calls of the workspace items, of the parser, of the drawing and of the editor
    may throw. The calls of the progress indicator, of the output channel, of the
    console and of \<^verbatim>\<open>context.tr\<close> return.
\<close>

type_synonym ArrayBuffer = "nat list"

text \<open>\<^verbatim>\<open>interface ShapeGroup\<close>: the object holding the buffers of one shapefile, keyed by
  extension.\<close>

type_synonym ShapeGroup = "(string \<times> ArrayBuffer) list"

type_synonym Groups = "(string \<times> ShapeGroup) list"

datatype exn = Exn string

text \<open>A workspace item: its title, its MIME type, what \<^verbatim>\<open>get()\<close> yields and what
  \<^verbatim>\<open>propfind()\<close> yields. Either fetch may fail.\<close>

datatype WorkspaceItem =
  WorkspaceItem (title: string) (mimeType: string)
    (get: "exn + ArrayBuffer") (propfind: "exn + WorkspaceItem list")

text \<open>Modelled from the spec: the host typings \<^verbatim>\<open>vec2\<close> and \<^verbatim>\<open>vec3\<close> are not part of the
  sources; the spec describes coordinates as 2D or 3D float tuples.\<close>

datatype coordinates = Vec2 real real | Vec3 real real real

type_synonym vec3 = "real list"

datatype Geometry =
    Point coordinates
  | LineString "coordinates list"
  | Polygon "coordinates list list"
  | MultiPoint "coordinates list"
  | MultiLineString "coordinates list list"
  | MultiPolygon "coordinates list list list"
  | OtherGeometry string

type_synonym Date = int

text \<open>A property value at run time: the four declared alternatives, and \<open>POther\<close> for a
  value of any other run-time type, given by its string rendering.\<close>

datatype PropertyValue =
    PNumber real
  | PString string
  | PBoolean bool
  | PDate Date
  | POther string

datatype Feature =
    Feature Geometry "(string \<times> PropertyValue) list"
  | OtherFeature string

datatype GeoJSON =
    FeatureCollection "Feature list"
  | OtherGeoJSON string

subsection \<open>Host objects\<close>

type_synonym handle = nat

datatype ref = LayerRef handle | EntityRef handle

datatype DwgValue = VNumber real | VString string | VBool bool | VRaw string

text \<open>\<^verbatim>\<open>DwgTypedObject\<close> as \<open>featurePropValue\<close> builds it: \<^verbatim>\<open>$value\<close>, \<^verbatim>\<open>$type\<close> and
  \<^verbatim>\<open>$units\<close>, where \<open>None\<close> is \<^verbatim>\<open>undefined\<close> (or absent).\<close>

record DwgTypedObject =
  dvalue :: DwgValue
  dtype :: "string option"
  dunits :: "string option"

text \<open>A field of the object handed to \<^verbatim>\<open>drawing.layers.add\<close>.\<close>

datatype LayerField = Typed DwgTypedObject | TypeRef handle | Name string

type_synonym DwgLayerData = "(string \<times> LayerField) list"

subsection \<open>Calls that leave the program\<close>

datatype call =
    BeginProgress
  | CreateOutputChannel string
  | OutputsInfo string
  | OutputsError exn
  | SetIndeterminate bool
  | SetDetails string
  | EndProgress
  | ConsoleError string
  | Get string
  | Propfind string
  | Shp ShapeGroup
  | LayoutEditor
  | BeginEdit
  | EndEdit
  | ItemById string
  | LayersAdd DwgLayerData
  | SetDisabled handle bool
  | AddCircle vec3 real
  | AddLine vec3 vec3
  | AddPolyline3d "vec3 list" "nat option"
  | Setx ref string ref

text \<open>An event is a call together with its outcome: \<open>Inl e\<close> when it threw \<open>e\<close>, \<open>Inr r\<close>
  when it returned; \<open>r\<close> is the handle of the created object for the creating calls.\<close>

type_synonym event = "call \<times> (exn + handle)"

text \<open>The environment of one run: the parser, the locale formatting of dates, the
  translation function of the context, and the host editor, which answers each call,
  given everything that happened before, by a handle or by an exception.\<close>

record host =
  shp :: "ShapeGroup \<Rightarrow> exn + GeoJSON"
  toLocaleString :: "Date \<Rightarrow> string"
  tr :: "string \<Rightarrow> string list \<Rightarrow> string"
  respond :: "event list \<Rightarrow> call \<Rightarrow> exn + handle"

subsection \<open>Computations with a history and exceptions\<close>

type_synonym 'a io = "event list \<Rightarrow> (exn + 'a) \<times> event list"

definition returnIO :: "'a \<Rightarrow> 'a io" where
  "returnIO x = (\<lambda>h. (Inr x, h))"

definition bindIO :: "'a io \<Rightarrow> ('a \<Rightarrow> 'b io) \<Rightarrow> 'b io" where
  "bindIO m f = (\<lambda>h. case m h of (Inl e, h') \<Rightarrow> (Inl e, h') | (Inr x, h') \<Rightarrow> f x h')"

text \<open>The continuation of a bind only matters at values the first computation can
  return; this lets a recursive definition see where a bound value comes from.\<close>

lemma bindIO_cong [fundef_cong]:
  assumes "m = m'"
    and "\<And>x h h'. m' h = (Inr x, h') \<Longrightarrow> f x = f' x"
  shows "bindIO m f = bindIO m' f'"
proof
  fix h
  show "bindIO m f h = bindIO m' f' h"
    using assms by (cases "m' h") (auto simp: bindIO_def split: sum.splits)
qed

text \<open>\<^verbatim>\<open>try { body } catch (e) { handler }\<close>\<close>

definition tryCatch :: "'a io \<Rightarrow> (exn \<Rightarrow> 'a io) \<Rightarrow> 'a io" where
  "tryCatch body handler =
     (\<lambda>h. case body h of (Inl e, h') \<Rightarrow> handler e h' | (Inr x, h') \<Rightarrow> (Inr x, h'))"

text \<open>\<^verbatim>\<open>try { body } finally { fin }\<close>: \<open>fin\<close> always runs; when it throws, its exception
  replaces the outcome of the body.\<close>

definition tryFinally :: "'a io \<Rightarrow> unit io \<Rightarrow> 'a io" where
  "tryFinally body fin =
     (\<lambda>h. case body h of (r, h') \<Rightarrow>
        (case fin h' of (Inl e, h'') \<Rightarrow> (Inl e, h'') | (Inr _, h'') \<Rightarrow> (r, h'')))"

text \<open>A call of the context, an output channel or the console: it is recorded and
  returns.\<close>

definition emit :: "call \<Rightarrow> unit io" where
  "emit c = (\<lambda>h. (Inr (), h @ [(c, Inr 0)]))"

text \<open>A call whose result \<open>r\<close> is given by the workspace item or by the parser.\<close>

definition external :: "call \<Rightarrow> exn + 'a \<Rightarrow> 'a io" where
  "external c r =
     (\<lambda>h. case r of Inl e \<Rightarrow> (Inl e, h @ [(c, Inl e)]) | Inr v \<Rightarrow> (Inr v, h @ [(c, Inr 0)]))"

text \<open>A call of the host drawing or editor.\<close>

definition hostCall :: "host \<Rightarrow> call \<Rightarrow> handle io" where
  "hostCall H c =
     (\<lambda>h. case respond H h c of
        Inl e \<Rightarrow> (Inl e, h @ [(c, Inl e)])
      | Inr r \<Rightarrow> (Inr r, h @ [(c, Inr r)]))"

text \<open>\<^verbatim>\<open>for (let i = 0; i < xs.length; ++i) { const x = xs[i]; body }\<close>\<close>

primrec forEach :: "'a list \<Rightarrow> ('a \<Rightarrow> unit io) \<Rightarrow> unit io" where
  "forEach [] body = returnIO ()"
| "forEach (x # xs) body = bindIO (body x) (\<lambda>_. forEach xs body)"

text \<open>The events a computation adds to the history it starts from.\<close>

definition emitted :: "'a io \<Rightarrow> event list \<Rightarrow> event list" where
  "emitted m h = drop (length h) (snd (m h))"

section \<open>Group Collector\<close>

definition ALLOWED_EXTENSIONS :: "string list" where
  "ALLOWED_EXTENSIONS = [''shp'', ''dbf'', ''prj'', ''cpg'', ''idx'', ''shx'']"

text \<open>\<^verbatim>\<open>title.substring(0, title.length - 4)\<close> and \<^verbatim>\<open>title.substring(title.length - 3)\<close>:
  \<^verbatim>\<open>substring\<close> treats a negative index as 0, as the subtraction on \<open>nat\<close> does.\<close>

definition baseName :: "string \<Rightarrow> string" where
  "baseName t = take (length t - 4) t"

definition extensionOf :: "string \<Rightarrow> string" where
  "extensionOf t = drop (length t - 3) t"

definition addToGroups :: "Groups \<Rightarrow> WorkspaceItem \<Rightarrow> Groups io" where
  "addToGroups groups item =
     bindIO (external (Get (title item)) (get item)) (\<lambda>bytes.
       let name = baseName (title item);
           extension = extensionOf (title item);
           group = (case map_of groups name of None \<Rightarrow> [] | Some g \<Rightarrow> g);
           groups1 = (case map_of groups name of
                        None \<Rightarrow> AList.update name [] groups
                      | Some g \<Rightarrow> groups)
       in if extension \<notin> set ALLOWED_EXTENSIONS
          then bindIO (emit (ConsoleError (''Unsupported extension '' @ extension)))
                 (\<lambda>_. returnIO groups1)
          else returnIO (AList.update name (AList.update extension bytes group) groups1))"

function extractGroups :: "Groups \<Rightarrow> WorkspaceItem list \<Rightarrow> Groups io" where
  "extractGroups groups [] = returnIO groups"
| "extractGroups groups (item # items) =
     (if mimeType item = ''application/vnd.folder'' then
        bindIO (external (Propfind (title item)) (propfind item)) (\<lambda>children.
        bindIO (extractGroups groups children) (\<lambda>groups'.
        extractGroups groups' items))
      else if mimeType item = ''application/octet-stream'' then
        bindIO (addToGroups groups item) (\<lambda>groups'. extractGroups groups' items)
      else
        bindIO (emit (ConsoleError (''Unsupported MIME type '' @ mimeType item)))
          (\<lambda>_. extractGroups groups items))"
  by pat_completeness auto

lemma propfind_size:
  "propfind item = Inr children \<Longrightarrow> size_list size children < size item"
  by (cases item) simp

lemma external_Inr:
  "external c r h = (Inr v, h') \<Longrightarrow> r = Inr v"
  by (cases r) (simp_all add: external_def)

termination extractGroups
proof (relation "measure (\<lambda>(groups, items). size_list size items)")
  show "wf (measure (\<lambda>(groups, items). size_list size items))"
    by simp
next
  fix groups :: Groups and item items children and h h' :: "event list"
  assume "external (Propfind (title item)) (propfind item) h = (Inr children, h')"
  then have "propfind item = Inr children"
    by (rule external_Inr)
  then show "((groups, children), (groups, item # items))
      \<in> measure (\<lambda>(groups, items). size_list size items)"
    using propfind_size [of item children] by simp
qed simp_all


definition octet :: "WorkspaceItem \<Rightarrow> bool" where
  "octet item \<longleftrightarrow> mimeType item = ''application/octet-stream''"

definition groupKey :: "WorkspaceItem \<Rightarrow> string \<times> string" where
  "groupKey item = (baseName (title item), extensionOf (title item))"

definition lookupBuf :: "Groups \<Rightarrow> string \<Rightarrow> string \<Rightarrow> ArrayBuffer option" where
  "lookupBuf groups name ext =
     (case map_of groups name of None \<Rightarrow> None | Some g \<Rightarrow> map_of g ext)"

section \<open>Geometry Mapper\<close>

subsection \<open>Enumeration order of \<^verbatim>\<open>for (const name in obj)\<close>\<close>

text \<open>Own keys that are array indices (canonical decimal numerals below \<open>2^32 - 1\<close>) come
  first, in ascending numeric order; the other keys follow in creation order.\<close>

definition indexValue :: "string \<Rightarrow> nat" where
  "indexValue s = foldl (\<lambda>n c. 10 * n + (of_char c - 48)) 0 s"

definition isArrayIndex :: "string \<Rightarrow> bool" where
  "isArrayIndex s \<longleftrightarrow>
     s \<noteq> [] \<and> (\<forall>c \<in> set s. 48 \<le> (of_char c :: nat) \<and> (of_char c :: nat) \<le> 57)
     \<and> (s = ''0'' \<or> hd s \<noteq> CHR ''0'') \<and> indexValue s < 2 ^ 32 - 1"

definition forIn :: "(string \<times> 'a) list \<Rightarrow> (string \<times> 'a) list" where
  "forIn obj =
     sort_key (\<lambda>p. indexValue (fst p)) (filter (\<lambda>p. isArrayIndex (fst p)) obj)
     @ filter (\<lambda>p. \<not> isArrayIndex (fst p)) obj"

subsection \<open>Property records\<close>

text \<open>\<^verbatim>\<open>Number.isInteger\<close>\<close>

definition isInteger :: "real \<Rightarrow> bool" where
  "isInteger x \<longleftrightarrow> of_int \<lfloor>x\<rfloor> = x"

fun featurePropValue :: "host \<Rightarrow> PropertyValue \<Rightarrow> DwgTypedObject io" where
  "featurePropValue H (PNumber prop) =
     returnIO \<lparr>dvalue = VNumber prop,
               dtype = Some (if isInteger prop then ''int'' else ''float''),
               dunits = None\<rparr>"
| "featurePropValue H (PString prop) =
     returnIO \<lparr>dvalue = VString prop, dtype = Some ''string'', dunits = None\<rparr>"
| "featurePropValue H (PBoolean prop) =
     returnIO \<lparr>dvalue = VBool prop, dtype = Some ''bool'', dunits = None\<rparr>"
| "featurePropValue H (PDate prop) =
     returnIO \<lparr>dvalue = VString (toLocaleString H prop), dtype = Some ''string'',
               dunits = None\<rparr>"
| "featurePropValue H (POther prop) =
     bindIO (emit (ConsoleError (''Unsupported property type '' @ prop)))
       (\<lambda>_. returnIO \<lparr>dvalue = VRaw prop, dtype = None, dunits = None\<rparr>)"

text \<open>The loop of \<open>featureProps\<close>, from the record built so far.\<close>

fun featureProps_loop ::
  "host \<Rightarrow> DwgLayerData \<Rightarrow> (string \<times> PropertyValue) list \<Rightarrow> DwgLayerData io" where
  "featureProps_loop H props [] = returnIO props"
| "featureProps_loop H props ((name, prop) # rest) =
     bindIO (featurePropValue H prop)
       (\<lambda>v. featureProps_loop H (AList.update name (Typed v) props) rest)"

definition featureProps :: "host \<Rightarrow> (string \<times> PropertyValue) list \<Rightarrow> DwgLayerData io" where
  "featureProps H rawProps = featureProps_loop H [] (forIn rawProps)"

subsection \<open>Geometry\<close>

text \<open>\<open>coordinates.length >= 3\<close> holds of a \<open>Vec3\<close> and fails of a \<open>Vec2\<close>.\<close>

fun coordinatesToVec3 :: "coordinates \<Rightarrow> vec3" where
  "coordinatesToVec3 (Vec3 x y z) = [x, y, z]"
| "coordinatesToVec3 (Vec2 x y) = [x, y, 0]"

definition SCALE :: real where
  "SCALE = 1"

definition scaleCoordinates :: "vec3 \<Rightarrow> vec3" where
  "scaleCoordinates coordinates = map (\<lambda>c. c * SCALE) coordinates"

fun featureGeometry :: "host \<Rightarrow> handle \<Rightarrow> Geometry \<Rightarrow> unit io" where
  "featureGeometry H layer (Point coordinates) =
     bindIO (hostCall H (AddCircle (scaleCoordinates (coordinatesToVec3 coordinates)) 0.005))
       (\<lambda>entity.
     bindIO (hostCall H (Setx (EntityRef entity) ''$layer'' (LayerRef layer)))
       (\<lambda>_. returnIO ()))"
| "featureGeometry H layer (LineString coordinates) =
     bindIO
       (if length coordinates = 2
        then hostCall H (AddLine (scaleCoordinates (coordinatesToVec3 (coordinates ! 0)))
                                 (scaleCoordinates (coordinatesToVec3 (coordinates ! 1))))
        else hostCall H (AddPolyline3d
                           (map (\<lambda>p. scaleCoordinates (coordinatesToVec3 p)) coordinates) None))
       (\<lambda>entity.
     bindIO (hostCall H (Setx (EntityRef entity) ''$layer'' (LayerRef layer)))
       (\<lambda>_. returnIO ()))"
| "featureGeometry H layer (Polygon rings) =
     forEach rings (\<lambda>coordinates.
       bindIO (hostCall H (AddPolyline3d
                             (map (\<lambda>p. scaleCoordinates (coordinatesToVec3 p)) coordinates) None))
         (\<lambda>entity.
       bindIO (hostCall H (Setx (EntityRef entity) ''$layer'' (LayerRef layer)))
         (\<lambda>_. returnIO ())))"
| "featureGeometry H layer (MultiPoint points) =
     forEach points (\<lambda>coordinates.
       bindIO (hostCall H (AddCircle (scaleCoordinates (coordinatesToVec3 coordinates)) 0.005))
         (\<lambda>entity.
       bindIO (hostCall H (Setx (EntityRef entity) ''$layer'' (LayerRef layer)))
         (\<lambda>_. returnIO ())))"
| "featureGeometry H layer (MultiLineString lines) =
     forEach lines (\<lambda>coordinates.
       bindIO
         (if length coordinates = 2
          then hostCall H (AddLine (scaleCoordinates (coordinatesToVec3 (coordinates ! 0)))
                                   (scaleCoordinates (coordinatesToVec3 (coordinates ! 1))))
          else hostCall H (AddPolyline3d
                             (map (\<lambda>p. scaleCoordinates (coordinatesToVec3 p)) coordinates) None))
         (\<lambda>entity.
       bindIO (hostCall H (Setx (EntityRef entity) ''$layer'' (LayerRef layer)))
         (\<lambda>_. returnIO ())))"
| "featureGeometry H layer (MultiPolygon polygons) =
     forEach polygons (\<lambda>polygonCoordinates.
       forEach polygonCoordinates (\<lambda>coordinates.
         bindIO (hostCall H (AddPolyline3d
                               (map (\<lambda>p. scaleCoordinates (coordinatesToVec3 p)) coordinates) None))
           (\<lambda>entity.
         bindIO (hostCall H (Setx (EntityRef entity) ''$layer'' (LayerRef layer)))
           (\<lambda>_. returnIO ()))))"
| "featureGeometry H layer (OtherGeometry type) =
     emit (ConsoleError (''Unsupported geometry type '' @ type))"

subsection \<open>Features and groups\<close>

definition loadFeature ::
  "host \<Rightarrow> Geometry \<Rightarrow> (string \<times> PropertyValue) list \<Rightarrow> handle io" where
  "loadFeature H geometry properties =
     bindIO (featureProps H properties) (\<lambda>layerData.
     bindIO (hostCall H (ItemById ''SmdxElement'')) (\<lambda>smdx.
     bindIO (hostCall H (LayersAdd
               (AList.update ''name'' (Name [])
                 (AList.update ''$type'' (TypeRef smdx) layerData)))) (\<lambda>layer.
     bindIO (hostCall H (SetDisabled layer True)) (\<lambda>_.
     bindIO (featureGeometry H layer geometry) (\<lambda>_.
     returnIO layer)))))"

text \<open>The body of the loop of \<open>loadShapes\<close> over the groups: one group.\<close>

definition loadGroup :: "host \<Rightarrow> string \<times> ShapeGroup \<Rightarrow> unit io" where
  "loadGroup H =
     (\<lambda>(name, group).
        bindIO (external (Shp group) (shp H group)) (\<lambda>geojson.
        case geojson of
          FeatureCollection features \<Rightarrow>
            bindIO (hostCall H (ItemById ''SmdxElement'')) (\<lambda>smdx.
            bindIO (hostCall H (LayersAdd [(''$type'', TypeRef smdx), (''name'', Name name)]))
              (\<lambda>parent.
            bindIO (hostCall H (SetDisabled parent True)) (\<lambda>_.
            forEach features (\<lambda>feature.
              case feature of
                Feature geometry properties \<Rightarrow>
                  bindIO (loadFeature H geometry properties) (\<lambda>layer.
                  bindIO (hostCall H (Setx (LayerRef layer) ''$layer'' (LayerRef parent)))
                    (\<lambda>_. returnIO ()))
              | OtherFeature type \<Rightarrow>
                  emit (ConsoleError (''Unsupported feature type '' @ type))))))
        | OtherGeoJSON type \<Rightarrow>
            emit (ConsoleError (''Unsupported GeoJSON type '' @ type))))"

definition loadShapes :: "host \<Rightarrow> Groups \<Rightarrow> unit io" where
  "loadShapes H groups = forEach (forIn groups) (loadGroup H)"

section \<open>The import operation\<close>

record Workspace =
  origin :: "string option"
  root :: WorkspaceItem

text \<open>The drawing as \<open>import\<close> reads it: \<^verbatim>\<open>drawing.layouts?.model\<close> is \<open>None\<close> when
  \<^verbatim>\<open>layouts\<close> is missing or has no \<^verbatim>\<open>model\<close>.\<close>

record Drawing =
  layouts_model :: "unit option"

text \<open>The two message keys handed to \<^verbatim>\<open>context.tr\<close>; the source has them in Russian.\<close>

definition MSG_IMPORT :: string where
  "MSG_IMPORT = ''Import shape from {0}''"

definition MSG_READING :: string where
  "MSG_READING = ''Reading file''"

definition SHPImporter_import :: "host \<Rightarrow> Workspace \<Rightarrow> Drawing \<Rightarrow> unit io" where
  "SHPImporter_import H workspace drawing =
     bindIO (emit BeginProgress) (\<lambda>_.
     bindIO (emit (CreateOutputChannel ''SHP'')) (\<lambda>_.
     tryFinally
       (tryCatch
          (bindIO (emit (OutputsInfo (tr H MSG_IMPORT
                     [case origin workspace of
                        Some s \<Rightarrow> s
                      | None \<Rightarrow> title (root workspace)]))) (\<lambda>_.
           bindIO (emit (SetIndeterminate True)) (\<lambda>_.
           case layouts_model drawing of
             None \<Rightarrow> returnIO ()
           | Some layout \<Rightarrow>
               bindIO (emit (SetDetails (tr H MSG_READING []))) (\<lambda>_.
               bindIO (external (Propfind (title (root workspace)))
                         (propfind (root workspace))) (\<lambda>items.
               bindIO (extractGroups [] items) (\<lambda>groups.
               bindIO (hostCall H LayoutEditor) (\<lambda>editor.
               bindIO (hostCall H BeginEdit) (\<lambda>_.
               tryFinally (loadShapes H groups)
                 (bindIO (hostCall H EndEdit) (\<lambda>_. returnIO ()))))))))))
          (\<lambda>uncaughtException. emit (OutputsError uncaughtException)))
       (emit EndProgress)))"

section \<open>Reading a history\<close>

text \<open>Whether a call returned; which calls create a drawing primitive; the primitives a
  history created, in order, each given by the call that created it.\<close>

definition returned :: "exn + 'a \<Rightarrow> bool" where
  "returned r \<longleftrightarrow> (case r of Inl e \<Rightarrow> False | Inr v \<Rightarrow> True)"

fun isPrimitive :: "call \<Rightarrow> bool" where
  "isPrimitive (AddCircle center radius) = True"
| "isPrimitive (AddLine a b) = True"
| "isPrimitive (AddPolyline3d vertices flags) = True"
| "isPrimitive c = False"

definition created :: "event list \<Rightarrow> call list" where
  "created t = map fst (filter (\<lambda>ev. isPrimitive (fst ev) \<and> returned (snd ev)) t)"

text \<open>
  Whether a call creates a layer.
\<close>

fun isLayersAdd :: "call \<Rightarrow> bool" where
  "isLayersAdd (LayersAdd layerData) = True"
| "isLayersAdd c = False"

text \<open>
  The host answers every call: no call of the drawing or of the editor throws.
\<close>

definition answers :: "host \<Rightarrow> bool" where
  "answers H \<longleftrightarrow> (\<forall>h c. returned (respond H h c))"

text \<open>
  \<open>makes H m cs\<close>: from every history, the computation \<open>m\<close> only extends the history; the
  primitives it creates are, in order, a prefix of \<open>cs\<close>; they are all of \<open>cs\<close> when \<open>m\<close>
  returns; and \<open>m\<close> returns when the host answers every call.
\<close>

definition makes :: "host \<Rightarrow> unit io \<Rightarrow> call list \<Rightarrow> bool" where
  "makes H m cs \<longleftrightarrow>
     (\<forall>h. (\<exists>t. snd (m h) = h @ t)
        \<and> prefix (created (emitted m h)) cs
        \<and> (returned (fst (m h)) \<longrightarrow> created (emitted m h) = cs)
        \<and> (answers H \<longrightarrow> returned (fst (m h))))"

section \<open>Sample inputs\<close>

text \<open>
  A small workspace: the parts of one shapefile, a second copy of its geometry, a
  text file, a file whose bytes cannot be fetched, and a folder.
\<close>

definition roads_shp :: WorkspaceItem where
  "roads_shp = WorkspaceItem ''roads.shp'' ''application/octet-stream'' (Inr [1]) (Inr [])"

definition roads_dbf :: WorkspaceItem where
  "roads_dbf = WorkspaceItem ''roads.dbf'' ''application/octet-stream'' (Inr [2]) (Inr [])"

definition roads_shp_again :: WorkspaceItem where
  "roads_shp_again = WorkspaceItem ''roads.shp'' ''application/octet-stream'' (Inr [9]) (Inr [])"

definition readme_txt :: WorkspaceItem where
  "readme_txt = WorkspaceItem ''readme.txt'' ''application/octet-stream'' (Inr [1, 2, 3]) (Inr [])"

definition broken_shp :: WorkspaceItem where
  "broken_shp = WorkspaceItem ''lost.shp'' ''application/octet-stream'' (Inl (Exn ''EIO'')) (Inr [])"

definition folder_of :: "WorkspaceItem list \<Rightarrow> WorkspaceItem" where
  "folder_of items = WorkspaceItem ''sub'' ''application/vnd.folder'' (Inl (Exn ''folder'')) (Inr items)"

definition sampleWorkspace :: Workspace where
  "sampleWorkspace =
     \<lparr>origin = Some ''demo'',
      root = WorkspaceItem ''root'' ''application/vnd.folder'' (Inl (Exn ''folder''))
               (Inr [roads_shp])\<rparr>"

definition readmeWorkspace :: Workspace where
  "readmeWorkspace =
     \<lparr>origin = None,
      root = WorkspaceItem ''root'' ''application/vnd.folder'' (Inl (Exn ''folder''))
               (Inr [readme_txt])\<rparr>"

definition sampleDrawing :: Drawing where
  "sampleDrawing = \<lparr>layouts_model = Some ()\<rparr>"

text \<open>
  A host that answers every call with a fresh handle (the number of events so far),
  with a parser that finds no features; the same host with a parser that returns another
  kind of value, with a parser that throws, and with a parser and an \<^verbatim>\<open>endEdit\<close> that both throw.
\<close>

definition quietHost :: host where
  "quietHost =
     \<lparr>shp = (\<lambda>group. Inr (FeatureCollection [])),
      toLocaleString = (\<lambda>d. ''1/1/1970, 12:00:00 AM''),
      tr = (\<lambda>key args. key),
      respond = (\<lambda>h c. Inr (length h))\<rparr>"

definition topologyHost :: host where
  "topologyHost = quietHost\<lparr>shp := (\<lambda>g. Inr (OtherGeoJSON ''Topology''))\<rparr>"



section \<open>Vocabulary of the proofs\<close>


text \<open>
  The exception of an outcome, if it is one.
\<close>

definition failure :: "exn + 'a \<Rightarrow> exn option" where
  "failure r = (case r of Inl e \<Rightarrow> Some e | Inr v \<Rightarrow> None)"

text \<open>
  \<open>obeys Q m\<close>: from every history, \<open>m\<close> only extends the history, and its outcome and the
  events it adds satisfy \<open>Q\<close>. A property is \<open>sequential\<close> when it holds of doing nothing and
  is kept by running a second computation after a first one that returned.
\<close>

definition obeys :: "(exn option \<Rightarrow> event list \<Rightarrow> bool) \<Rightarrow> 'a io \<Rightarrow> bool" where
  "obeys Q m \<longleftrightarrow> (\<forall>h. \<exists>t. snd (m h) = h @ t \<and> Q (failure (fst (m h))) t)"

definition sequential :: "(exn option \<Rightarrow> event list \<Rightarrow> bool) \<Rightarrow> bool" where
  "sequential Q \<longleftrightarrow> Q None [] \<and> (\<forall>t1 t2 r. Q None t1 \<and> Q r t2 \<longrightarrow> Q r (t1 @ t2))"

text \<open>
  Every primitive that a history created is followed at once by the call that sets its
  layer reference to \<open>layer\<close>.
\<close>

definition tagged :: "handle \<Rightarrow> event list \<Rightarrow> bool" where
  "tagged layer t \<longleftrightarrow>
     (\<forall>i entity. i < length t \<and> isPrimitive (fst (t ! i)) \<and> snd (t ! i) = Inr entity \<longrightarrow>
        Suc i < length t \<and> fst (t ! Suc i) = Setx (EntityRef entity) ''$layer'' (LayerRef layer))"

text \<open>
  The part of \<open>makes\<close> that does not depend on the host.
\<close>

definition creates :: "unit io \<Rightarrow> call list \<Rightarrow> bool" where
  "creates m cs \<longleftrightarrow>
     (\<forall>h. \<exists>t. snd (m h) = h @ t \<and> prefix (created t) cs
        \<and> (returned (fst (m h)) \<longrightarrow> created t = cs))"

text \<open>
  Every call of the history is one of those \<open>A\<close> allows; every call returned, except that
  the last one threw the exception of the outcome when the outcome is one.
\<close>

definition orderly :: "(call \<Rightarrow> bool) \<Rightarrow> exn option \<Rightarrow> event list \<Rightarrow> bool" where
  "orderly A r t \<longleftrightarrow>
     (\<forall>ev \<in> set t. A (fst ev))
     \<and> (case r of
          None \<Rightarrow> (\<forall>ev \<in> set t. returned (snd ev))
        | Some e \<Rightarrow> (\<exists>t0 c. t = t0 @ [(c, Inl e)] \<and> (\<forall>ev \<in> set t0. returned (snd ev))))"

text \<open>
  The calls \<open>featureGeometry\<close> makes.
\<close>

fun drawsOnly :: "call \<Rightarrow> bool" where
  "drawsOnly (AddCircle center radius) = True"
| "drawsOnly (AddLine a b) = True"
| "drawsOnly (AddPolyline3d vertices flags) = True"
| "drawsOnly (Setx target key v) = True"
| "drawsOnly (ConsoleError s) = True"
| "drawsOnly c = False"


text \<open>
  The calls other than the bracket of the edit session, the error report and the end of
  progress.
\<close>

fun quiet :: "call \<Rightarrow> bool" where
  "quiet BeginEdit = False"
| "quiet EndEdit = False"
| "quiet EndProgress = False"
| "quiet (OutputsError e) = False"
| "quiet c = True"

text \<open>
  A stretch of history without failure, session bracket, error report or end of progress.
\<close>

definition calm :: "event list \<Rightarrow> bool" where
  "calm t \<longleftrightarrow> (\<forall>ev \<in> set t. quiet (fst ev) \<and> returned (snd ev))"


text \<open>
  What the \<^verbatim>\<open>catch\<close> block adds to the history.
\<close>

definition report :: "exn option \<Rightarrow> event list" where
  "report r = (case r of Some e \<Rightarrow> [(OutputsError e, Inr 0)] | None \<Rightarrow> [])"

text \<open>
  The record \<open>featurePropValue\<close> returns and the diagnostic it emits.
\<close>

definition typedOf :: "host \<Rightarrow> PropertyValue \<Rightarrow> DwgTypedObject" where
  "typedOf H v =
     (case fst (featurePropValue H v []) of
        Inr obj \<Rightarrow> obj
      | Inl e \<Rightarrow> \<lparr>dvalue = VRaw [], dtype = None, dunits = None\<rparr>)"

definition complaint :: "PropertyValue \<Rightarrow> event list" where
  "complaint v =
     (case v of
        POther s \<Rightarrow> [(ConsoleError (''Unsupported property type '' @ s), Inr 0)]
      | _ \<Rightarrow> [])"

section \<open>Evaluation on the sample inputs\<close>

lemma addToGroups_run:
  "addToGroups groups item h =
     (case get item of
        Inl e \<Rightarrow> (Inl e, h @ [(Get (title item), Inl e)])
      | Inr bytes \<Rightarrow>
          (if extensionOf (title item) \<notin> set ALLOWED_EXTENSIONS
           then (Inr (case map_of groups (baseName (title item)) of
                        None \<Rightarrow> AList.update (baseName (title item)) [] groups
                      | Some g \<Rightarrow> groups),
                 h @ [(Get (title item), Inr 0),
                      (ConsoleError (''Unsupported extension '' @ extensionOf (title item)), Inr 0)])
           else (Inr (AList.update (baseName (title item))
                        (AList.update (extensionOf (title item)) bytes
                           (case map_of groups (baseName (title item)) of None \<Rightarrow> [] | Some g \<Rightarrow> g))
                        (case map_of groups (baseName (title item)) of
                           None \<Rightarrow> AList.update (baseName (title item)) [] groups
                         | Some g \<Rightarrow> groups)),
                 h @ [(Get (title item), Inr 0)])))"
  by (simp add: addToGroups_def bindIO_def external_def emit_def returnIO_def Let_def
      split: sum.splits)

lemmas collector_eval =
  addToGroups_run returnIO_def bindIO_def external_def emit_def baseName_def extensionOf_def
  ALLOWED_EXTENSIONS_def octet_def groupKey_def lookupBuf_def
  roads_shp_def roads_dbf_def roads_shp_again_def readme_txt_def broken_shp_def folder_of_def

lemma forIn_single: "forIn [p] = [p]"
  by (simp add: forIn_def)

lemmas mapper_eval =
  emitted_def bindIO_def hostCall_def returnIO_def emit_def external_def quietHost_def
  answers_def scaleCoordinates_def SCALE_def

lemmas import_eval =
  SHPImporter_import_def tryFinally_def tryCatch_def loadShapes_def loadGroup_def forIn_single
  bindIO_def hostCall_def returnIO_def emit_def external_def quietHost_def
  addToGroups_run baseName_def extensionOf_def ALLOWED_EXTENSIONS_def
  roads_shp_def readme_txt_def sampleWorkspace_def readmeWorkspace_def sampleDrawing_def
  MSG_IMPORT_def MSG_READING_def

section \<open>Properties of the Group Collector\<close>


















text \<open>
  \<^bold>\<open>C1\<close> (the code at the input where the claim breaks). The claim: an opaque-binary item
  whose title does not end in one of the six recognized suffixes is skipped with a
  diagnostic and leaves the mapping as if the item were absent. The code emits the
  diagnostic and stores none of the bytes, but it has already created the group entry when
  it checks the extension: collecting the single file \<^verbatim>\<open>readme.txt\<close> yields a mapping with the
  empty group \<^verbatim>\<open>readme\<close>, whereas collecting nothing yields the empty mapping.
\<close>

theorem extractGroups_unrecognized_leaves_entry:
  "extractGroups [] [readme_txt] []
     = (Inr [(''readme'', [])],
        [(Get ''readme.txt'', Inr 0), (ConsoleError ''Unsupported extension txt'', Inr 0)])
   \<and> extractGroups [] [] [] = (Inr [], [])
   \<and> SHPImporter_import quietHost readmeWorkspace sampleDrawing [] =
     (Inr (),
      [(BeginProgress, Inr 0), (CreateOutputChannel ''SHP'', Inr 0),
       (OutputsInfo ''Import shape from {0}'', Inr 0), (SetIndeterminate True, Inr 0),
       (SetDetails ''Reading file'', Inr 0), (Propfind ''root'', Inr 0),
       (Get ''readme.txt'', Inr 0), (ConsoleError ''Unsupported extension txt'', Inr 0),
       (LayoutEditor, Inr 8), (BeginEdit, Inr 9),
       (Shp [], Inr 0),
       (ItemById ''SmdxElement'', Inr 11),
       (LayersAdd [(''$type'', TypeRef 11), (''name'', Name ''readme'')], Inr 12),
       (SetDisabled 12 True, Inr 13),
       (EndEdit, Inr 14), (EndProgress, Inr 0)])"
  by (simp add: collector_eval import_eval)

section \<open>Histories of computations\<close>

lemma failure_simps [simp]: "failure (Inl e) = Some e" "failure (Inr v) = None"
  by (simp_all add: failure_def)

lemma obeysD:
  "obeys Q m \<Longrightarrow> \<exists>t. m h = (fst (m h), h @ t) \<and> Q (failure (fst (m h))) t"
  by (metis obeys_def prod.collapse)

lemma emitted_eq:
  "snd (m h) = h @ t \<Longrightarrow> emitted m h = t"
  by (simp add: emitted_def)

lemma obeys_emitted:
  "obeys Q m \<Longrightarrow> Q (failure (fst (m h))) (emitted m h)"
  by (metis obeys_def emitted_eq)

lemma obeys_return:
  "sequential Q \<Longrightarrow> obeys Q (returnIO x)"
  by (simp add: obeys_def sequential_def returnIO_def)

lemma obeys_bind:
  assumes "sequential Q" "obeys Q m" "\<And>x. obeys Q (f x)"
  shows "obeys Q (bindIO m f)"
  unfolding obeys_def
proof
  fix h
  from assms(2) obtain t where m: "m h = (fst (m h), h @ t)" and q: "Q (failure (fst (m h))) t"
    using obeysD by blast
  show "\<exists>t. snd (bindIO m f h) = h @ t \<and> Q (failure (fst (bindIO m f h))) t"
  proof (cases "fst (m h)")
    case (Inl e)
    with m q show ?thesis
      by (intro exI [of _ t]) (simp add: bindIO_def split: prod.splits)
  next
    case (Inr x)
    from assms(3) [of x] obtain t' where f: "f x (h @ t) = (fst (f x (h @ t)), h @ t @ t')"
      and q': "Q (failure (fst (f x (h @ t)))) t'"
      using obeysD [of Q "f x" "h @ t"] by auto
    have b: "bindIO m f h = f x (h @ t)"
      using m Inr by (simp add: bindIO_def split: prod.splits)
    from q Inr have "Q None t" by simp
    with q' assms(1) have "Q (failure (fst (f x (h @ t)))) (t @ t')"
      by (simp add: sequential_def)
    with b f show ?thesis
      by (intro exI [of _ "t @ t'"]) (metis snd_conv)
  qed
qed

lemma obeys_forEach:
  assumes "sequential Q" "\<And>x. obeys Q (body x)"
  shows "obeys Q (forEach xs body)"
  by (induction xs) (simp_all add: assms obeys_return obeys_bind)

lemma obeys_emit:
  "Q None [(c, Inr 0)] \<Longrightarrow> obeys Q (emit c)"
  by (simp add: obeys_def emit_def)

lemma obeys_hostCall:
  "(\<And>r. Q None [(c, Inr r)]) \<Longrightarrow> (\<And>e. Q (Some e) [(c, Inl e)]) \<Longrightarrow> obeys Q (hostCall H c)"
  by (simp add: obeys_def hostCall_def split: sum.splits)

lemma obeys_external:
  "Q None [(c, Inr 0)] \<Longrightarrow> (\<And>e. Q (Some e) [(c, Inl e)]) \<Longrightarrow> obeys Q (external c r)"
  by (simp add: obeys_def external_def split: sum.splits)

lemma bindIO_Inl: "m h = (Inl e, h') \<Longrightarrow> bindIO m f h = (Inl e, h')"
  by (simp add: bindIO_def)

lemma bindIO_Inr: "m h = (Inr x, h') \<Longrightarrow> bindIO m f h = f x h'"
  by (simp add: bindIO_def)


section \<open>Geometry dispatch\<close>

lemma tagged_Nil: "tagged layer []"
  by (simp add: tagged_def)

lemma tagged_append:
  assumes "tagged layer a" "tagged layer b"
  shows "tagged layer (a @ b)"
  unfolding tagged_def
proof (intro allI impI)
  fix i entity
  assume h: "i < length (a @ b) \<and> isPrimitive (fst ((a @ b) ! i)) \<and> snd ((a @ b) ! i) = Inr entity"
  show "Suc i < length (a @ b)
      \<and> fst ((a @ b) ! Suc i) = Setx (EntityRef entity) ''$layer'' (LayerRef layer)"
  proof (cases "i < length a")
    case True
    with h have "i < length a \<and> isPrimitive (fst (a ! i)) \<and> snd (a ! i) = Inr entity"
      by (simp add: nth_append)
    with assms(1) have "Suc i < length a
        \<and> fst (a ! Suc i) = Setx (EntityRef entity) ''$layer'' (LayerRef layer)"
      unfolding tagged_def by blast
    then show ?thesis by (simp add: nth_append)
  next
    case False
    with h have "i - length a < length b \<and> isPrimitive (fst (b ! (i - length a)))
        \<and> snd (b ! (i - length a)) = Inr entity"
      by (auto simp: nth_append)
    with assms(2) have "Suc (i - length a) < length b
        \<and> fst (b ! Suc (i - length a)) = Setx (EntityRef entity) ''$layer'' (LayerRef layer)"
      unfolding tagged_def by blast
    with False show ?thesis by (auto simp: nth_append Suc_diff_le)
  qed
qed

lemma sequential_tagged: "sequential (\<lambda>r. tagged layer)"
  by (simp add: sequential_def tagged_Nil tagged_append)

lemma tagged_other: "\<not> isPrimitive c \<Longrightarrow> tagged layer [(c, r)]"
  by (auto simp: tagged_def)

lemma tagged_thrown: "tagged layer [(c, Inl e)]"
  by (auto simp: tagged_def)

lemma tagged_pair:
  "tagged layer [(c, Inr entity), (Setx (EntityRef entity) ''$layer'' (LayerRef layer), r)]"
  by (auto simp: tagged_def less_Suc_eq)

lemma tagged_create:
  "obeys (\<lambda>r. tagged layer)
     (bindIO (hostCall H c) (\<lambda>entity.
      bindIO (hostCall H (Setx (EntityRef entity) ''$layer'' (LayerRef layer)))
        (\<lambda>_. returnIO ())))"
  by (simp add: obeys_def bindIO_def hostCall_def returnIO_def tagged_thrown tagged_pair
      split: sum.splits)

lemma featureGeometry_tagged:
  "obeys (\<lambda>r. tagged layer) (featureGeometry H layer geometry)"
proof (cases geometry)
  case (LineString cs)
  then show ?thesis
    by (cases "length cs = 2") (simp_all add: tagged_create)
next
  case (OtherGeometry type)
  then show ?thesis
    by (simp add: obeys_emit tagged_other)
qed (simp_all add: tagged_create obeys_forEach sequential_tagged)

lemma created_simps [simp]:
  "created [] = []"
  "created (ev # t) =
     (if isPrimitive (fst ev) \<and> returned (snd ev) then fst ev # created t else created t)"
  "created (a @ b) = created a @ created b"
  by (simp_all add: created_def)

lemma returned_simps [simp]: "returned (Inr v)" "\<not> returned (Inl e)"
  by (simp_all add: returned_def)

lemma creates_create:
  "isPrimitive c \<Longrightarrow>
   creates (bindIO (hostCall H c) (\<lambda>entity.
            bindIO (hostCall H (Setx (EntityRef entity) ''$layer'' (LayerRef layer)))
              (\<lambda>_. returnIO ()))) [c]"
  by (simp add: creates_def bindIO_def hostCall_def returnIO_def split: sum.splits)

lemma creates_forEach:
  assumes "\<And>x. creates (body x) (F x)"
  shows "creates (forEach xs body) (concat (map F xs))"
proof (induction xs)
  case Nil
  show ?case by (simp add: creates_def returnIO_def)
next
  case (Cons x xs)
  show ?case
    unfolding creates_def
  proof
    fix h
    from assms [of x] obtain t where
      t: "snd (body x h) = h @ t" and p: "prefix (created t) (F x)"
      and r: "returned (fst (body x h)) \<longrightarrow> created t = F x"
      unfolding creates_def by blast
    show "\<exists>t. snd (forEach (x # xs) body h) = h @ t
        \<and> prefix (created t) (concat (map F (x # xs)))
        \<and> (returned (fst (forEach (x # xs) body h)) \<longrightarrow> created t = concat (map F (x # xs)))"
    proof (cases "fst (body x h)")
      case (Inl e)
      with t have "body x h = (Inl e, h @ t)"
        by (simp add: prod_eq_iff)
      then have "forEach (x # xs) body h = (Inl e, h @ t)"
        by (simp add: bindIO_Inl)
      with p show ?thesis
        by (intro exI [of _ t]) (simp add: prefix_prefix)
    next
      case (Inr u)
      with t have "body x h = (Inr u, h @ t)"
        by (simp add: prod_eq_iff)
      then have b: "forEach (x # xs) body h = forEach xs body (h @ t)"
        by (simp add: bindIO_Inr)
      from Cons obtain t' where
        t': "snd (forEach xs body (h @ t)) = h @ t @ t'"
        and p': "prefix (created t') (concat (map F xs))"
        and r': "returned (fst (forEach xs body (h @ t))) \<longrightarrow> created t' = concat (map F xs)"
        unfolding creates_def by (metis append.assoc)
      from r Inr have "created t = F x" by simp
      with b t' p' r' show ?thesis
        by (intro exI [of _ "t @ t'"]) simp
    qed
  qed
qed

lemma creates_emitted:
  assumes "creates m cs"
  shows "(\<exists>t. snd (m h) = h @ t) \<and> prefix (created (emitted m h)) cs
     \<and> (returned (fst (m h)) \<longrightarrow> created (emitted m h) = cs)"
  using assms unfolding creates_def by (metis emitted_eq)

lemma creates_line:
  "isPrimitive c1 \<Longrightarrow> isPrimitive c2 \<Longrightarrow>
   creates (bindIO (if b then hostCall H c1 else hostCall H c2) (\<lambda>entity.
            bindIO (hostCall H (Setx (EntityRef entity) ''$layer'' (LayerRef layer)))
              (\<lambda>_. returnIO ()))) [if b then c1 else c2]"
  by (cases b) (simp_all add: creates_create)

lemma concat_map_single: "concat (map (\<lambda>x. [f x]) xs) = map f xs"
  by (induction xs) simp_all

lemma creates_LineString:
  "creates (featureGeometry H layer (LineString cs))
     [if length cs = 2
      then AddLine (scaleCoordinates (coordinatesToVec3 (cs ! 0)))
                   (scaleCoordinates (coordinatesToVec3 (cs ! 1)))
      else AddPolyline3d (map (\<lambda>p. scaleCoordinates (coordinatesToVec3 p)) cs) None]"
  by (simp add: creates_line)

lemma creates_MultiLineString:
  "creates (featureGeometry H layer (MultiLineString lines))
     (map (\<lambda>cs. if length cs = 2
                 then AddLine (scaleCoordinates (coordinatesToVec3 (cs ! 0)))
                              (scaleCoordinates (coordinatesToVec3 (cs ! 1)))
                 else AddPolyline3d (map (\<lambda>p. scaleCoordinates (coordinatesToVec3 p)) cs) None)
        lines)"
proof -
  have "creates (featureGeometry H layer (MultiLineString lines))
     (concat (map (\<lambda>cs. [if length cs = 2
                 then AddLine (scaleCoordinates (coordinatesToVec3 (cs ! 0)))
                              (scaleCoordinates (coordinatesToVec3 (cs ! 1)))
                 else AddPolyline3d (map (\<lambda>p. scaleCoordinates (coordinatesToVec3 p)) cs) None])
        lines))"
    unfolding featureGeometry.simps
    by (intro creates_forEach) (simp add: creates_line)
  then show ?thesis
    by (simp add: concat_map_single)
qed

lemma creates_Polygon:
  "creates (featureGeometry H layer (Polygon rings))
     (map (\<lambda>ring. AddPolyline3d (map (\<lambda>p. scaleCoordinates (coordinatesToVec3 p)) ring) None)
        rings)"
proof -
  have "creates (featureGeometry H layer (Polygon rings))
     (concat (map (\<lambda>ring.
        [AddPolyline3d (map (\<lambda>p. scaleCoordinates (coordinatesToVec3 p)) ring) None]) rings))"
    unfolding featureGeometry.simps
    by (intro creates_forEach) (simp add: creates_create)
  then show ?thesis
    by (simp add: concat_map_single)
qed

lemma creates_MultiPolygon:
  "creates (featureGeometry H layer (MultiPolygon polygons))
     (map (\<lambda>ring. AddPolyline3d (map (\<lambda>p. scaleCoordinates (coordinatesToVec3 p)) ring) None)
        (concat polygons))"
proof -
  have "creates (featureGeometry H layer (MultiPolygon polygons))
     (concat (map (\<lambda>rings. concat (map (\<lambda>ring.
         [AddPolyline3d (map (\<lambda>p. scaleCoordinates (coordinatesToVec3 p)) ring) None]) rings))
       polygons))"
    unfolding featureGeometry.simps
    by (intro creates_forEach) (simp add: creates_create)
  then show ?thesis
    by (simp add: concat_map_single map_concat)
qed

lemma creates_Point:
  "creates (featureGeometry H layer (Point p))
     [AddCircle (scaleCoordinates (coordinatesToVec3 p)) 0.005]"
  by (simp add: creates_create)

lemma creates_MultiPoint:
  "creates (featureGeometry H layer (MultiPoint points))
     (map (\<lambda>p. AddCircle (scaleCoordinates (coordinatesToVec3 p)) 0.005) points)"
proof -
  have "creates (featureGeometry H layer (MultiPoint points))
     (concat (map (\<lambda>p. [AddCircle (scaleCoordinates (coordinatesToVec3 p)) 0.005]) points))"
    unfolding featureGeometry.simps
    by (intro creates_forEach) (simp add: creates_create)
  then show ?thesis
    by (simp add: concat_map_single)
qed

lemma sequential_normal: "sequential (\<lambda>r t. r = None)"
  by (simp add: sequential_def)

lemma normal_hostCall: "answers H \<Longrightarrow> obeys (\<lambda>r t. r = None) (hostCall H c)"
  by (auto simp: obeys_def hostCall_def answers_def returned_def split: sum.splits)

lemma normal_emit: "obeys (\<lambda>r t. r = None) (emit c)"
  by (simp add: obeys_emit)

lemmas normal_intros =
  obeys_bind [OF sequential_normal] obeys_forEach [OF sequential_normal]
  obeys_return [OF sequential_normal] normal_hostCall normal_emit

lemma featureGeometry_normal:
  "answers H \<Longrightarrow> obeys (\<lambda>r t. r = None) (featureGeometry H layer geometry)"
  by (cases geometry) (auto intro!: normal_intros)

lemma normal_returned:
  "obeys (\<lambda>r t. r = None) m \<Longrightarrow> returned (fst (m h))"
  by (auto simp: obeys_def failure_def returned_def split: sum.splits)

lemma makesI:
  "creates (featureGeometry H layer geometry) cs \<Longrightarrow> makes H (featureGeometry H layer geometry) cs"
  unfolding makes_def
  using creates_emitted featureGeometry_normal normal_returned by blast

text \<open>
  \<^bold>\<open>C3\<close>. For a LineString, \<open>featureGeometry\<close> creates exactly one primitive: a line between
  the two points when there are exactly two coordinates, and otherwise a 3D polyline, without
  flags, through all of them, which has as many vertices as there are coordinates. For a
  MultiLineString it creates, in order, one such primitive for each part.
\<close>

theorem featureGeometry_line_or_polyline:
  "makes H (featureGeometry H layer (LineString cs))
     [if length cs = 2
      then AddLine (scaleCoordinates (coordinatesToVec3 (cs ! 0)))
                   (scaleCoordinates (coordinatesToVec3 (cs ! 1)))
      else AddPolyline3d (map (\<lambda>p. scaleCoordinates (coordinatesToVec3 p)) cs) None]
   \<and> makes H (featureGeometry H layer (MultiLineString lines))
     (map (\<lambda>cs. if length cs = 2
                 then AddLine (scaleCoordinates (coordinatesToVec3 (cs ! 0)))
                              (scaleCoordinates (coordinatesToVec3 (cs ! 1)))
                 else AddPolyline3d (map (\<lambda>p. scaleCoordinates (coordinatesToVec3 p)) cs) None)
        lines)
   \<and> length (map (\<lambda>p. scaleCoordinates (coordinatesToVec3 p)) cs) = length cs"
  by (simp add: makesI creates_LineString creates_MultiLineString del: featureGeometry.simps)

theorem featureGeometry_line_or_polyline_witness:
  "created (emitted (featureGeometry quietHost 7 (LineString [Vec2 0 0, Vec2 3 4])) [])
     = [AddLine [0, 0, 0] [3, 4, 0]]
   \<and> created (emitted (featureGeometry quietHost 7
        (MultiLineString [[Vec2 0 0, Vec2 3 4], [Vec2 0 0, Vec2 1 0, Vec3 1 1 5]])) [])
     = [AddLine [0, 0, 0] [3, 4, 0], AddPolyline3d [[0, 0, 0], [1, 0, 0], [1, 1, 5]] None]"
proof -
  have a: "answers quietHost"
    by (simp add: answers_def quietHost_def)
  note t = featureGeometry_line_or_polyline [of quietHost 7 "[Vec2 0 0, Vec2 3 4]"
      "[[Vec2 0 0, Vec2 3 4], [Vec2 0 0, Vec2 1 0, Vec3 1 1 5]]"]
  from t a have "created (emitted (featureGeometry quietHost 7 (LineString [Vec2 0 0, Vec2 3 4])) [])
     = [AddLine (scaleCoordinates (coordinatesToVec3 (Vec2 0 0)))
                (scaleCoordinates (coordinatesToVec3 (Vec2 3 4)))]"
    unfolding makes_def by (auto simp del: featureGeometry.simps)
  moreover from t a have "created (emitted (featureGeometry quietHost 7
        (MultiLineString [[Vec2 0 0, Vec2 3 4], [Vec2 0 0, Vec2 1 0, Vec3 1 1 5]])) [])
     = [AddLine (scaleCoordinates (coordinatesToVec3 (Vec2 0 0)))
                (scaleCoordinates (coordinatesToVec3 (Vec2 3 4))),
        AddPolyline3d (map (\<lambda>p. scaleCoordinates (coordinatesToVec3 p))
                         [Vec2 0 0, Vec2 1 0, Vec3 1 1 5]) None]"
    unfolding makes_def by (auto simp del: featureGeometry.simps)
  ultimately show ?thesis
    by (simp add: scaleCoordinates_def SCALE_def del: featureGeometry.simps)
qed

text \<open>
  \<^bold>\<open>C4\<close>. For a Polygon, \<open>featureGeometry\<close> creates one 3D polyline per ring, in ring order,
  each through the coordinates of its ring and without flags (so none is marked closed), and
  nothing else (no mesh). For a MultiPolygon it does the same for the rings of all its
  polygons, in order.
\<close>

theorem featureGeometry_polygon_rings:
  "makes H (featureGeometry H layer (Polygon rings))
     (map (\<lambda>ring. AddPolyline3d (map (\<lambda>p. scaleCoordinates (coordinatesToVec3 p)) ring) None)
        rings)
   \<and> makes H (featureGeometry H layer (MultiPolygon polygons))
     (map (\<lambda>ring. AddPolyline3d (map (\<lambda>p. scaleCoordinates (coordinatesToVec3 p)) ring) None)
        (concat polygons))"
  by (simp add: makesI creates_Polygon creates_MultiPolygon del: featureGeometry.simps)

theorem featureGeometry_polygon_rings_witness:
  "answers quietHost
   \<and> created (emitted (featureGeometry quietHost 7
        (Polygon [[Vec2 0 0, Vec2 4 0, Vec2 0 0], [Vec2 1 1, Vec2 2 1, Vec2 1 1]])) [])
     = [AddPolyline3d [[0, 0, 0], [4, 0, 0], [0, 0, 0]] None,
        AddPolyline3d [[1, 1, 0], [2, 1, 0], [1, 1, 0]] None]
   \<and> created (emitted (featureGeometry quietHost 7
        (MultiPolygon [[[Vec2 0 0, Vec2 4 0, Vec2 0 0]], [[Vec3 1 1 2, Vec3 2 1 2, Vec3 1 1 2]]])) [])
     = [AddPolyline3d [[0, 0, 0], [4, 0, 0], [0, 0, 0]] None,
        AddPolyline3d [[1, 1, 2], [2, 1, 2], [1, 1, 2]] None]"
proof -
  have a: "answers quietHost"
    by (simp add: answers_def quietHost_def)
  note t = featureGeometry_polygon_rings [of quietHost 7
      "[[Vec2 0 0, Vec2 4 0, Vec2 0 0], [Vec2 1 1, Vec2 2 1, Vec2 1 1]]"
      "[[[Vec2 0 0, Vec2 4 0, Vec2 0 0]], [[Vec3 1 1 2, Vec3 2 1 2, Vec3 1 1 2]]]"]
  from t [THEN conjunct1] a have "created (emitted (featureGeometry quietHost 7
        (Polygon [[Vec2 0 0, Vec2 4 0, Vec2 0 0], [Vec2 1 1, Vec2 2 1, Vec2 1 1]])) [])
     = map (\<lambda>ring. AddPolyline3d (map (\<lambda>p. scaleCoordinates (coordinatesToVec3 p)) ring) None)
         [[Vec2 0 0, Vec2 4 0, Vec2 0 0], [Vec2 1 1, Vec2 2 1, Vec2 1 1]]"
    unfolding makes_def by blast
  moreover from t [THEN conjunct2] a have "created (emitted (featureGeometry quietHost 7
        (MultiPolygon [[[Vec2 0 0, Vec2 4 0, Vec2 0 0]], [[Vec3 1 1 2, Vec3 2 1 2, Vec3 1 1 2]]])) [])
     = map (\<lambda>ring. AddPolyline3d (map (\<lambda>p. scaleCoordinates (coordinatesToVec3 p)) ring) None)
         (concat [[[Vec2 0 0, Vec2 4 0, Vec2 0 0]], [[Vec3 1 1 2, Vec3 2 1 2, Vec3 1 1 2]]])"
    unfolding makes_def by blast
  ultimately show ?thesis
    using a by (simp add: scaleCoordinates_def SCALE_def del: featureGeometry.simps)
qed

text \<open>
  \<^bold>\<open>C5\<close>. A coordinate pair becomes a triple by a zero third component and a triple stays
  as it is. For a Point, \<open>featureGeometry\<close> creates exactly one circle of radius 0.005 whose
  centre is the triple of the point, each component multiplied by \<open>SCALE\<close>; for a MultiPoint
  it creates one such circle per point, in order.
\<close>

theorem featureGeometry_point_circle:
  "coordinatesToVec3 (Vec2 x y) = [x, y, 0]
   \<and> coordinatesToVec3 (Vec3 x y z) = [x, y, z]
   \<and> makes H (featureGeometry H layer (Point p))
        [AddCircle (map (\<lambda>c. c * SCALE) (coordinatesToVec3 p)) 0.005]
   \<and> makes H (featureGeometry H layer (MultiPoint points))
        (map (\<lambda>p. AddCircle (map (\<lambda>c. c * SCALE) (coordinatesToVec3 p)) 0.005) points)"
  using makesI [OF creates_Point, of H layer p] makesI [OF creates_MultiPoint, of H layer points]
  by (simp add: scaleCoordinates_def del: featureGeometry.simps)

theorem featureGeometry_point_circle_witness:
  "answers quietHost
   \<and> created (emitted (featureGeometry quietHost 7 (Point (Vec2 10 20))) [])
     = [AddCircle [10, 20, 0] 0.005]
   \<and> created (emitted (featureGeometry quietHost 7 (MultiPoint [Vec2 10 20, Vec3 1 2 3])) [])
     = [AddCircle [10, 20, 0] 0.005, AddCircle [1, 2, 3] 0.005]"
proof -
  have a: "answers quietHost"
    by (simp add: answers_def quietHost_def)
  note t = featureGeometry_point_circle [where H = quietHost and layer = 7
      and p = "Vec2 10 20" and points = "[Vec2 10 20, Vec3 1 2 3]"]
  from t a have "created (emitted (featureGeometry quietHost 7 (Point (Vec2 10 20))) [])
     = [AddCircle (map (\<lambda>c. c * SCALE) (coordinatesToVec3 (Vec2 10 20))) 0.005]"
    unfolding makes_def by blast
  moreover from t a have
    "created (emitted (featureGeometry quietHost 7 (MultiPoint [Vec2 10 20, Vec3 1 2 3])) [])
     = map (\<lambda>p. AddCircle (map (\<lambda>c. c * SCALE) (coordinatesToVec3 p)) 0.005)
         [Vec2 10 20, Vec3 1 2 3]"
    unfolding makes_def by blast
  ultimately show ?thesis
    using a by (simp add: SCALE_def del: featureGeometry.simps)
qed

section \<open>Failures come last\<close>


lemma orderly_Some:
  "orderly A (Some e) t \<longleftrightarrow>
     (\<forall>ev \<in> set t. A (fst ev))
     \<and> (\<exists>t0 c. t = t0 @ [(c, Inl e)] \<and> (\<forall>ev \<in> set t0. returned (snd ev)))"
  by (simp add: orderly_def)

lemma orderly_append:
  assumes "orderly A None t1" "orderly A r t2"
  shows "orderly A r (t1 @ t2)"
proof (cases r)
  case None
  with assms show ?thesis by (auto simp: orderly_def)
next
  case (Some e)
  with assms obtain t0 c where t2: "t2 = t0 @ [(c, Inl e)]" and ok: "\<forall>ev \<in> set t0. returned (snd ev)"
    by (auto simp: orderly_def)
  from assms(1) ok have "\<forall>ev \<in> set (t1 @ t0). returned (snd ev)"
    by (auto simp: orderly_def)
  moreover have "t1 @ t2 = (t1 @ t0) @ [(c, Inl e)]"
    by (simp add: t2)
  moreover from assms have "\<forall>ev \<in> set (t1 @ t2). A (fst ev)"
    by (auto simp: orderly_def)
  ultimately show ?thesis
    unfolding Some orderly_Some by blast
qed

lemma sequential_orderly: "sequential (orderly A)"
  unfolding sequential_def using orderly_append by (auto simp: orderly_def)

lemma orderly_hostCall: "A c \<Longrightarrow> obeys (orderly A) (hostCall H c)"
  by (rule obeys_hostCall) (simp_all add: orderly_def)

lemma orderly_emit: "A c \<Longrightarrow> obeys (orderly A) (emit c)"
  by (rule obeys_emit) (simp add: orderly_def)

lemma orderly_external: "A c \<Longrightarrow> obeys (orderly A) (external c r)"
  by (rule obeys_external) (simp_all add: orderly_def)

lemmas orderly_intros =
  obeys_bind [OF sequential_orderly] obeys_forEach [OF sequential_orderly]
  obeys_return [OF sequential_orderly] orderly_hostCall orderly_emit orderly_external

lemma featureGeometry_orderly:
  assumes "\<And>c. drawsOnly c \<Longrightarrow> A c"
  shows "obeys (orderly A) (featureGeometry H layer geometry)"
  by (cases geometry) (auto intro!: orderly_intros assms)










section \<open>Property records\<close>

lemma isInteger_Ints: "isInteger x \<longleftrightarrow> x \<in> \<int>"
proof -
  have "isInteger x \<longleftrightarrow> (\<exists>n. x = of_int n)"
    by (simp add: isInteger_def)
  also have "\<dots> \<longleftrightarrow> x \<in> \<int>"
    by (auto simp: Ints_def)
  finally show ?thesis .
qed

lemma mset_forIn: "mset (forIn obj) = mset obj"
  by (simp add: forIn_def)

lemma set_forIn: "set (forIn obj) = set obj"
  using mset_forIn by (metis set_mset_mset)

lemma distinct_forIn: "distinct (map fst obj) \<Longrightarrow> distinct (map fst (forIn obj))"
proof -
  have "mset (map fst (forIn obj)) = mset (map fst obj)"
    by (simp add: mset_forIn)
  then show "distinct (map fst obj) \<Longrightarrow> distinct (map fst (forIn obj))"
    by (metis mset_eq_imp_distinct_iff)
qed

lemma map_of_forIn: "distinct (map fst obj) \<Longrightarrow> map_of (forIn obj) = map_of obj"
  by (simp add: map_of_inject_set distinct_forIn set_forIn)

lemma featurePropValue_run:
  "featurePropValue H v h = (Inr (typedOf H v), h @ complaint v)"
  by (cases v) (simp_all add: typedOf_def complaint_def returnIO_def bindIO_def emit_def)

lemma featureProps_loop_run:
  "featureProps_loop H props raw h =
     (Inr (foldl (\<lambda>ps kv. AList.update (fst kv) (Typed (typedOf H (snd kv))) ps) props raw),
      h @ concat (map (\<lambda>kv. complaint (snd kv)) raw))"
proof (induction raw arbitrary: props h)
  case Nil
  show ?case by (simp add: returnIO_def)
next
  case (Cons kv raw)
  obtain k v where kv: "kv = (k, v)" by (cases kv)
  show ?case
    unfolding kv featureProps_loop.simps
    by (simp add: bindIO_Inr [OF featurePropValue_run] Cons)
qed

lemma map_of_foldl_update:
  "distinct (map fst raw) \<Longrightarrow>
   map_of (foldl (\<lambda>ps kv. AList.update (fst kv) (f (snd kv)) ps) props raw) k =
     (case map_of raw k of Some v \<Rightarrow> Some (f v) | None \<Rightarrow> map_of props k)"
proof (induction raw arbitrary: props)
  case Nil
  show ?case by simp
next
  case (Cons kv raw)
  obtain k' v' where kv: "kv = (k', v')" by (cases kv)
  from Cons.prems kv have d: "distinct (map fst raw)" and n: "map_of raw k' = None"
    by (auto simp: map_of_eq_None_iff)
  show ?case
    unfolding kv using Cons.IH [OF d] n
    by (auto simp: AList.update_conv' split: option.splits)
qed

text \<open>
  \<^bold>\<open>C6\<close>. \<open>featurePropValue\<close> classifies by run-time type: a number gets type \<^verbatim>\<open>int\<close> when it
  is an integer and \<^verbatim>\<open>float\<close> otherwise, and no unit; a string gets type \<^verbatim>\<open>string\<close>; a boolean
  gets type \<^verbatim>\<open>bool\<close>; a date becomes its locale string with type \<^verbatim>\<open>string\<close>; any other value
  is kept as it is, without a type, after a diagnostic. For a property map (an object, so its
  keys are distinct), \<open>featureProps\<close> returns a record that has, under each key of the map,
  what \<open>featurePropValue\<close> returns for the value under that key, and nothing under any other
  key; its diagnostics are those of the values of any other type.
\<close>

theorem featureProps_classifies_by_runtime_type:
  "featurePropValue H (PNumber x) h =
       (Inr \<lparr>dvalue = VNumber x, dtype = Some (if x \<in> \<int> then ''int'' else ''float''),
              dunits = None\<rparr>, h)
   \<and> featurePropValue H (PString s) h =
       (Inr \<lparr>dvalue = VString s, dtype = Some ''string'', dunits = None\<rparr>, h)
   \<and> featurePropValue H (PBoolean b) h =
       (Inr \<lparr>dvalue = VBool b, dtype = Some ''bool'', dunits = None\<rparr>, h)
   \<and> featurePropValue H (PDate d) h =
       (Inr \<lparr>dvalue = VString (toLocaleString H d), dtype = Some ''string'', dunits = None\<rparr>, h)
   \<and> featurePropValue H (POther v) h =
       (Inr \<lparr>dvalue = VRaw v, dtype = None, dunits = None\<rparr>,
        h @ [(ConsoleError (''Unsupported property type '' @ v), Inr 0)])
   \<and> (distinct (map fst rawProps) \<longrightarrow>
        (\<exists>props t. featureProps H rawProps h = (Inr props, h @ t)
           \<and> (\<forall>name prop. map_of rawProps name = Some prop \<longrightarrow>
                 (\<exists>obj h'. featurePropValue H prop h = (Inr obj, h')
                    \<and> map_of props name = Some (Typed obj)))
           \<and> (\<forall>name. map_of rawProps name = None \<longrightarrow> map_of props name = None)
           \<and> set t = {(ConsoleError (''Unsupported property type '' @ v), Inr 0) | v.
                        \<exists>name. map_of rawProps name = Some (POther v)}))"
proof (intro conjI impI)
  show "featurePropValue H (PNumber x) h =
       (Inr \<lparr>dvalue = VNumber x, dtype = Some (if x \<in> \<int> then ''int'' else ''float''),
              dunits = None\<rparr>, h)"
    by (simp add: returnIO_def isInteger_Ints)
  show "featurePropValue H (PString s) h =
       (Inr \<lparr>dvalue = VString s, dtype = Some ''string'', dunits = None\<rparr>, h)"
    by (simp add: returnIO_def)
  show "featurePropValue H (PBoolean b) h =
       (Inr \<lparr>dvalue = VBool b, dtype = Some ''bool'', dunits = None\<rparr>, h)"
    by (simp add: returnIO_def)
  show "featurePropValue H (PDate d) h =
       (Inr \<lparr>dvalue = VString (toLocaleString H d), dtype = Some ''string'', dunits = None\<rparr>, h)"
    by (simp add: returnIO_def)
  show "featurePropValue H (POther v) h =
       (Inr \<lparr>dvalue = VRaw v, dtype = None, dunits = None\<rparr>,
        h @ [(ConsoleError (''Unsupported property type '' @ v), Inr 0)])"
    by (simp add: returnIO_def bindIO_def emit_def)
next
  assume d: "distinct (map fst rawProps)"
  let ?props = "foldl (\<lambda>ps kv. AList.update (fst kv) (Typed (typedOf H (snd kv))) ps) []
      (forIn rawProps)"
  let ?t = "concat (map (\<lambda>kv. complaint (snd kv)) (forIn rawProps))"
  have run: "featureProps H rawProps h = (Inr ?props, h @ ?t)"
    by (simp add: featureProps_def featureProps_loop_run)
  have m: "map_of ?props name =
      (case map_of rawProps name of Some v \<Rightarrow> Some (Typed (typedOf H v)) | None \<Rightarrow> None)"
    for name
    using map_of_foldl_update [OF distinct_forIn [OF d], of "\<lambda>v. Typed (typedOf H v)" "[]" name]
    by (simp add: map_of_forIn [OF d] split: option.splits)
  have "set ?t = (\<Union>kv \<in> set rawProps. set (complaint (snd kv)))"
    by (simp add: set_forIn)
  also have "\<dots> = {(ConsoleError (''Unsupported property type '' @ v), Inr 0) | v.
                        \<exists>name. (name, POther v) \<in> set rawProps}"
    by (auto simp: complaint_def split: PropertyValue.splits)
  also have "\<dots> = {(ConsoleError (''Unsupported property type '' @ v), Inr 0) | v.
                        \<exists>name. map_of rawProps name = Some (POther v)}"
    using d by (auto dest: map_of_SomeD)
  finally have s: "set ?t = {(ConsoleError (''Unsupported property type '' @ v), Inr 0) | v.
                        \<exists>name. map_of rawProps name = Some (POther v)}" .
  show "\<exists>props t. featureProps H rawProps h = (Inr props, h @ t)
           \<and> (\<forall>name prop. map_of rawProps name = Some prop \<longrightarrow>
                 (\<exists>obj h'. featurePropValue H prop h = (Inr obj, h')
                    \<and> map_of props name = Some (Typed obj)))
           \<and> (\<forall>name. map_of rawProps name = None \<longrightarrow> map_of props name = None)
           \<and> set t = {(ConsoleError (''Unsupported property type '' @ v), Inr 0) | v.
                        \<exists>name. map_of rawProps name = Some (POther v)}"
  proof (intro exI [of _ ?props] exI [of _ ?t] conjI allI impI)
    show "featureProps H rawProps h = (Inr ?props, h @ ?t)" by (rule run)
  next
    fix name p
    assume "map_of rawProps name = Some p"
    then have "map_of ?props name = Some (Typed (typedOf H p))"
      by (simp add: m)
    with featurePropValue_run [of H p h]
    show "\<exists>obj h'. featurePropValue H p h = (Inr obj, h')
        \<and> map_of ?props name = Some (Typed obj)"
      by blast
  next
    fix name
    assume "map_of rawProps name = None"
    then show "map_of ?props name = None" by (simp add: m)
  next
    show "set ?t = {(ConsoleError (''Unsupported property type '' @ v), Inr 0) | v.
                        \<exists>name. map_of rawProps name = Some (POther v)}"
      by (rule s)
  qed
qed

theorem featureProps_classifies_by_runtime_type_witness:
  "\<exists>props t. featureProps quietHost [(''area'', PNumber 42), (''7'', POther ''null'')] []
       = (Inr props, t)
     \<and> map_of props ''area''
       = Some (Typed \<lparr>dvalue = VNumber 42, dtype = Some ''int'', dunits = None\<rparr>)
     \<and> map_of props ''owner'' = None
     \<and> set t = {(ConsoleError ''Unsupported property type null'', Inr 0)}"
proof -
  let ?raw = "[(''area'', PNumber 42), (''7'', POther ''null'')]"
  have d: "distinct (map fst ?raw)" by simp
  note t = featureProps_classifies_by_runtime_type [where H = quietHost and h = "[]"
      and rawProps = ?raw]
  from t d obtain props tr where run: "featureProps quietHost ?raw [] = (Inr props, [] @ tr)"
    and some: "\<forall>name p. map_of ?raw name = Some p \<longrightarrow>
        (\<exists>obj h'. featurePropValue quietHost p [] = (Inr obj, h')
           \<and> map_of props name = Some (Typed obj))"
    and none: "\<forall>name. map_of ?raw name = None \<longrightarrow> map_of props name = None"
    and diag: "set tr = {(ConsoleError (''Unsupported property type '' @ v), Inr 0) | v.
        \<exists>name. map_of ?raw name = Some (POther v)}"
    by blast
  have "map_of ?raw ''area'' = Some (PNumber 42)" by simp
  with some obtain obj h' where "featurePropValue quietHost (PNumber 42) [] = (Inr obj, h')"
    and "map_of props ''area'' = Some (Typed obj)"
    by blast
  then have area: "map_of props ''area''
       = Some (Typed \<lparr>dvalue = VNumber 42, dtype = Some ''int'', dunits = None\<rparr>)"
    by (auto simp: returnIO_def isInteger_def)
  have "map_of ?raw ''owner'' = None" by simp
  with none have owner: "map_of props ''owner'' = None" by blast
  have "{(ConsoleError (''Unsupported property type '' @ v), Inr 0 :: exn + handle) | v.
        \<exists>name. map_of ?raw name = Some (POther v)}
      = {(ConsoleError ''Unsupported property type null'', Inr 0)}"
    by (auto split: if_splits)
  with diag have "set tr = {(ConsoleError ''Unsupported property type null'', Inr 0)}"
    by simp
  with run area owner show ?thesis by auto
qed

section \<open>Features and groups\<close>

lemma complaint_events:
  "ev \<in> set (concat (map (\<lambda>kv. complaint (snd kv)) raw)) \<Longrightarrow>
   \<not> isPrimitive (fst ev) \<and> \<not> isLayersAdd (fst ev)"
  by (auto simp: complaint_def split: PropertyValue.splits)

lemma featureProps_run:
  "\<exists>layerData tp. featureProps H raw h = (Inr layerData, h @ tp)
     \<and> (\<forall>ev \<in> set tp. \<not> isPrimitive (fst ev) \<and> \<not> isLayersAdd (fst ev))"
  unfolding featureProps_def featureProps_loop_run
  using complaint_events by blast

lemma tagged_after:
  assumes A: "\<forall>ev \<in> set A. \<not> isPrimitive (fst ev)"
    and tg: "tagged layer tg"
    and l: "(LayersAdd layerData, Inr layer) \<in> set A"
    and i: "i < length (A @ tg)" "isPrimitive (fst ((A @ tg) ! i))" "snd ((A @ tg) ! i) = Inr entity"
  shows "(LayersAdd layerData, Inr layer) \<in> set (take i (A @ tg))
     \<and> Suc i < length (A @ tg)
     \<and> fst ((A @ tg) ! Suc i) = Setx (EntityRef entity) ''$layer'' (LayerRef layer)"
proof -
  have ge: "length A \<le> i"
  proof (rule ccontr)
    assume "\<not> length A \<le> i"
    then have "i < length A" by simp
    with i(2) A show False by (auto simp: nth_append)
  qed
  with i have "i - length A < length tg" "isPrimitive (fst (tg ! (i - length A)))"
    "snd (tg ! (i - length A)) = Inr entity"
    by (auto simp: nth_append)
  with tg have "Suc (i - length A) < length tg
      \<and> fst (tg ! Suc (i - length A)) = Setx (EntityRef entity) ''$layer'' (LayerRef layer)"
    unfolding tagged_def by blast
  with ge have "Suc i < length (A @ tg)
      \<and> fst ((A @ tg) ! Suc i) = Setx (EntityRef entity) ''$layer'' (LayerRef layer)"
    by (auto simp: nth_append Suc_diff_le)
  moreover from ge l have "(LayersAdd layerData, Inr layer) \<in> set (take i (A @ tg))"
    by simp
  ultimately show ?thesis by simp
qed

lemma featureGeometry_no_layers:
  "\<exists>tg. featureGeometry H layer geometry h = (fst (featureGeometry H layer geometry h), h @ tg)
     \<and> tagged layer tg \<and> filter (\<lambda>ev. isLayersAdd (fst ev)) tg = []"
proof -
  have "obeys (orderly (\<lambda>c. \<not> isLayersAdd c)) (featureGeometry H layer geometry)"
    by (rule featureGeometry_orderly) (auto elim: drawsOnly.elims)
  then obtain tg where tg: "featureGeometry H layer geometry h
        = (fst (featureGeometry H layer geometry h), h @ tg)"
    and o: "\<forall>ev \<in> set tg. \<not> isLayersAdd (fst ev)"
    using obeysD [of _ _ h] by (fastforce simp: orderly_def)
  from tg have "emitted (featureGeometry H layer geometry) h = tg"
    by (metis emitted_eq snd_conv)
  with obeys_emitted [OF featureGeometry_tagged, of layer H geometry h]
  have "tagged layer tg" by simp
  with tg o show ?thesis
    by (auto simp: filter_empty_conv)
qed

lemma loadFeature_shape:
  "\<exists>t. snd (loadFeature H geometry properties h) = h @ t
     \<and> length (filter (\<lambda>ev. isLayersAdd (fst ev)) t) \<le> 1
     \<and> ((\<forall>ev \<in> set t. \<not> isPrimitive (fst ev))
        \<or> (\<exists>A tg layerData layer. t = A @ tg \<and> (\<forall>ev \<in> set A. \<not> isPrimitive (fst ev))
              \<and> tagged layer tg \<and> (LayersAdd layerData, Inr layer) \<in> set A))"
proof -
  define P where "P t \<longleftrightarrow>
     snd (loadFeature H geometry properties h) = h @ t
     \<and> length (filter (\<lambda>ev. isLayersAdd (fst ev)) t) \<le> 1
     \<and> ((\<forall>ev \<in> set t. \<not> isPrimitive (fst ev))
        \<or> (\<exists>A tg layerData layer. t = A @ tg \<and> (\<forall>ev \<in> set A. \<not> isPrimitive (fst ev))
              \<and> tagged layer tg \<and> (LayersAdd layerData, Inr layer) \<in> set A))" for t
  obtain layerData tp where fp: "featureProps H properties h = (Inr layerData, h @ tp)"
    and tp: "\<forall>ev \<in> set tp. \<not> isPrimitive (fst ev) \<and> \<not> isLayersAdd (fst ev)"
    using featureProps_run by blast
  from tp have ftp: "filter (\<lambda>ev. isLayersAdd (fst ev)) tp = []"
    by (auto simp: filter_empty_conv)
  have stop: "P (tp @ X)"
    if "snd (loadFeature H geometry properties h) = h @ tp @ X"
      and "\<forall>ev \<in> set X. \<not> isPrimitive (fst ev)"
      and "length (filter (\<lambda>ev. isLayersAdd (fst ev)) X) \<le> 1" for X
    unfolding P_def
  proof (intro conjI disjI1)
    show "snd (loadFeature H geometry properties h) = h @ tp @ X" by (rule that(1))
    show "length (filter (\<lambda>ev. isLayersAdd (fst ev)) (tp @ X)) \<le> 1"
      using that(3) by (simp add: ftp)
    show "\<forall>ev \<in> set (tp @ X). \<not> isPrimitive (fst ev)"
      using that(2) tp by auto
  qed
  let ?h1 = "h @ tp"
  let ?c1 = "ItemById ''SmdxElement''"
  define c2 where "c2 smdx = LayersAdd (AList.update ''name'' (Name [])
      (AList.update ''$type'' (TypeRef smdx) layerData))" for smdx
  have lf: "loadFeature H geometry properties h =
     bindIO (hostCall H ?c1) (\<lambda>smdx.
     bindIO (hostCall H (c2 smdx)) (\<lambda>layer.
     bindIO (hostCall H (SetDisabled layer True)) (\<lambda>_.
     bindIO (featureGeometry H layer geometry) (\<lambda>_.
     returnIO layer)))) ?h1"
    unfolding loadFeature_def c2_def by (simp add: bindIO_Inr [where m = "featureProps H properties", OF fp])
  have np: "\<not> isPrimitive ?c1" "\<not> isPrimitive (c2 smdx)" "\<not> isLayersAdd ?c1" for smdx
    by (simp_all add: c2_def)
  have "\<exists>t. P t"
  proof (cases "respond H ?h1 ?c1")
    case (Inl e)
    then have "loadFeature H geometry properties h = (Inl e, h @ tp @ [(?c1, Inl e)])"
      unfolding lf by (simp add: bindIO_def hostCall_def)
    then have "P (tp @ [(?c1, Inl e)])"
      by (intro stop) simp_all
    then show ?thesis by (rule exI)
  next
    case smdx: (Inr smdx)
    let ?h2 = "?h1 @ [(?c1, Inr smdx)]"
    show ?thesis
    proof (cases "respond H ?h2 (c2 smdx)")
      case (Inl e)
      with smdx have "loadFeature H geometry properties h
          = (Inl e, h @ tp @ [(?c1, Inr smdx), (c2 smdx, Inl e)])"
        unfolding lf by (simp add: bindIO_def hostCall_def)
      then have "P (tp @ [(?c1, Inr smdx), (c2 smdx, Inl e)])"
        by (intro stop) (simp_all add: np)
      then show ?thesis by (rule exI)
    next
      case layer: (Inr layer)
      let ?h3 = "?h2 @ [(c2 smdx, Inr layer)]"
      show ?thesis
      proof (cases "respond H ?h3 (SetDisabled layer True)")
        case (Inl e)
        with smdx layer have "loadFeature H geometry properties h
            = (Inl e, h @ tp @ [(?c1, Inr smdx), (c2 smdx, Inr layer),
                 (SetDisabled layer True, Inl e)])"
          unfolding lf by (simp add: bindIO_def hostCall_def)
        then have "P (tp @ [(?c1, Inr smdx), (c2 smdx, Inr layer),
                 (SetDisabled layer True, Inl e)])"
          by (intro stop) (simp_all add: np)
        then show ?thesis by (rule exI)
      next
        case (Inr r)
        let ?X = "[(?c1, Inr smdx), (c2 smdx, Inr layer), (SetDisabled layer True, Inr r)]"
        let ?A = "tp @ ?X"
        from featureGeometry_no_layers [of H layer geometry "h @ ?A"]
        obtain tg where g: "featureGeometry H layer geometry (h @ ?A)
              = (fst (featureGeometry H layer geometry (h @ ?A)), (h @ ?A) @ tg)"
          and t: "tagged layer tg" and f: "filter (\<lambda>ev. isLayersAdd (fst ev)) tg = []"
          by (elim exE conjE)
        from g have g': "snd (featureGeometry H layer geometry (h @ ?A)) = (h @ ?A) @ tg"
          by (simp add: prod_eq_iff)
        from smdx layer Inr have "loadFeature H geometry properties h =
            bindIO (featureGeometry H layer geometry) (\<lambda>_. returnIO layer) (h @ ?A)"
          unfolding lf by (simp add: bindIO_def hostCall_def)
        then have "snd (loadFeature H geometry properties h)
            = snd (featureGeometry H layer geometry (h @ ?A))"
          by (simp add: bindIO_def returnIO_def split: prod.splits sum.splits)
        with g' have s: "snd (loadFeature H geometry properties h) = h @ ?A @ tg"
          by simp
        have a: "\<forall>ev \<in> set ?A. \<not> isPrimitive (fst ev)"
          using tp by (simp add: np)
        have l: "(c2 smdx, Inr layer) \<in> set ?A"
          by simp
        have c: "length (filter (\<lambda>ev. isLayersAdd (fst ev)) (?A @ tg)) \<le> 1"
          by (simp add: ftp f np)
        have "\<exists>A tg' layerData layer'. ?A @ tg = A @ tg'
              \<and> (\<forall>ev \<in> set A. \<not> isPrimitive (fst ev))
              \<and> tagged layer' tg' \<and> (LayersAdd layerData, Inr layer') \<in> set A"
          using a t l unfolding c2_def by (intro exI conjI) (rule refl, assumption+)
        with s c have "P (?A @ tg)" unfolding P_def by (intro conjI disjI2)
        then show ?thesis by (rule exI)
      qed
    qed
  qed
  then show ?thesis unfolding P_def .
qed

text \<open>
  \<^bold>\<open>C7\<close>. In the history \<open>featureGeometry\<close> adds, every primitive that was created is followed
  at once by the call that sets its \<^verbatim>\<open>$layer\<close> to the layer it was given; so this call comes
  before the creation of the next primitive. In the history \<open>loadFeature\<close> adds for a
  feature, at most one layer is added, and every primitive that was created comes after the
  creation of that layer and is followed at once by the call that sets its \<^verbatim>\<open>$layer\<close> to it.
\<close>

theorem featureGeometry_tags_every_primitive:
  "(\<exists>t. snd (featureGeometry H layer geometry h) = h @ t
      \<and> (\<forall>i entity. i < length t \<and> isPrimitive (fst (t ! i)) \<and> snd (t ! i) = Inr entity \<longrightarrow>
            Suc i < length t
          \<and> fst (t ! Suc i) = Setx (EntityRef entity) ''$layer'' (LayerRef layer)))
   \<and> (\<exists>t. snd (loadFeature H geometry properties h) = h @ t
      \<and> length (filter (\<lambda>ev. isLayersAdd (fst ev)) t) \<le> 1
      \<and> (\<forall>i entity. i < length t \<and> isPrimitive (fst (t ! i)) \<and> snd (t ! i) = Inr entity \<longrightarrow>
            (\<exists>layerData child. (LayersAdd layerData, Inr child) \<in> set (take i t)
               \<and> Suc i < length t
               \<and> fst (t ! Suc i) = Setx (EntityRef entity) ''$layer'' (LayerRef child))))"
proof
  from featureGeometry_no_layers [of H layer geometry h]
  show "\<exists>t. snd (featureGeometry H layer geometry h) = h @ t
      \<and> (\<forall>i entity. i < length t \<and> isPrimitive (fst (t ! i)) \<and> snd (t ! i) = Inr entity \<longrightarrow>
            Suc i < length t
          \<and> fst (t ! Suc i) = Setx (EntityRef entity) ''$layer'' (LayerRef layer))"
    unfolding tagged_def by (metis snd_conv)
next
  from loadFeature_shape [of H geometry properties h] obtain t where
    s: "snd (loadFeature H geometry properties h) = h @ t"
    and c: "length (filter (\<lambda>ev. isLayersAdd (fst ev)) t) \<le> 1"
    and alt: "(\<forall>ev \<in> set t. \<not> isPrimitive (fst ev))
        \<or> (\<exists>A tg layerData layer. t = A @ tg \<and> (\<forall>ev \<in> set A. \<not> isPrimitive (fst ev))
              \<and> tagged layer tg \<and> (LayersAdd layerData, Inr layer) \<in> set A)"
    by blast
  have "\<exists>layerData child. (LayersAdd layerData, Inr child) \<in> set (take i t)
               \<and> Suc i < length t
               \<and> fst (t ! Suc i) = Setx (EntityRef entity) ''$layer'' (LayerRef child)"
    if i: "i < length t" "isPrimitive (fst (t ! i))" "snd (t ! i) = Inr entity" for i entity
    using alt
  proof
    assume "\<forall>ev \<in> set t. \<not> isPrimitive (fst ev)"
    with i show ?thesis by (metis nth_mem)
  next
    assume "\<exists>A tg layerData layer. t = A @ tg \<and> (\<forall>ev \<in> set A. \<not> isPrimitive (fst ev))
              \<and> tagged layer tg \<and> (LayersAdd layerData, Inr layer) \<in> set A"
    then obtain A tg layerData layer where t: "t = A @ tg"
      and A: "\<forall>ev \<in> set A. \<not> isPrimitive (fst ev)" and tg: "tagged layer tg"
      and l: "(LayersAdd layerData, Inr layer) \<in> set A"
      by blast
    from tagged_after [OF A tg l, of i entity] i show ?thesis
      unfolding t by blast
  qed
  with s c show "\<exists>t. snd (loadFeature H geometry properties h) = h @ t
      \<and> length (filter (\<lambda>ev. isLayersAdd (fst ev)) t) \<le> 1
      \<and> (\<forall>i entity. i < length t \<and> isPrimitive (fst (t ! i)) \<and> snd (t ! i) = Inr entity \<longrightarrow>
            (\<exists>layerData child. (LayersAdd layerData, Inr child) \<in> set (take i t)
               \<and> Suc i < length t
               \<and> fst (t ! Suc i) = Setx (EntityRef entity) ''$layer'' (LayerRef child)))"
    by blast
qed

theorem featureGeometry_tags_every_primitive_witness:
  "fst (snd (featureGeometry quietHost 7 (MultiPoint [Vec2 0 0, Vec2 1 1]) []) ! 3)
     = Setx (EntityRef 2) ''$layer'' (LayerRef 7)
   \<and> (LayersAdd [(''$type'', TypeRef 0), (''name'', Name [])], Inr 1)
       \<in> set (take 3 (snd (loadFeature quietHost (Point (Vec2 0 0)) [] [])))
   \<and> fst (snd (loadFeature quietHost (Point (Vec2 0 0)) [] []) ! 4)
     = Setx (EntityRef 3) ''$layer'' (LayerRef 1)"
proof -
  let ?g = "snd (featureGeometry quietHost 7 (MultiPoint [Vec2 0 0, Vec2 1 1]) [])"
  let ?f = "snd (loadFeature quietHost (Point (Vec2 0 0)) [] [])"
  have g: "?g = [(AddCircle [0, 0, 0] 0.005, Inr 0),
                 (Setx (EntityRef 0) ''$layer'' (LayerRef 7), Inr 1),
                 (AddCircle [1, 1, 0] 0.005, Inr 2),
                 (Setx (EntityRef 2) ''$layer'' (LayerRef 7), Inr 3)]"
    by (simp add: mapper_eval)
  have f: "?f = [(ItemById ''SmdxElement'', Inr 0),
                 (LayersAdd [(''$type'', TypeRef 0), (''name'', Name [])], Inr 1),
                 (SetDisabled 1 True, Inr 2),
                 (AddCircle [0, 0, 0] 0.005, Inr 3),
                 (Setx (EntityRef 3) ''$layer'' (LayerRef 1), Inr 4)]"
    by (simp add: mapper_eval loadFeature_def featureProps_def forIn_def)
  note t = featureGeometry_tags_every_primitive [where H = quietHost and layer = 7
      and h = "[]"]
  from t [where geometry = "MultiPoint [Vec2 0 0, Vec2 1 1]", THEN conjunct1]
  obtain tg where eg: "?g = [] @ tg"
    and pg: "\<forall>i entity. i < length tg \<and> isPrimitive (fst (tg ! i)) \<and> snd (tg ! i) = Inr entity
        \<longrightarrow> Suc i < length tg
          \<and> fst (tg ! Suc i) = Setx (EntityRef entity) ''$layer'' (LayerRef 7)"
    by (elim exE conjE)
  from eg g have tg: "tg = [(AddCircle [0, 0, 0] 0.005, Inr 0),
                 (Setx (EntityRef 0) ''$layer'' (LayerRef 7), Inr 1),
                 (AddCircle [1, 1, 0] 0.005, Inr 2),
                 (Setx (EntityRef 2) ''$layer'' (LayerRef 7), Inr 3)]"
    by (simp del: featureGeometry.simps)
  from pg [rule_format, of 2 2] have "fst (tg ! 3) = Setx (EntityRef 2) ''$layer'' (LayerRef 7)"
    unfolding tg by (simp add: eval_nat_numeral)
  with tg g have a: "fst (?g ! 3) = Setx (EntityRef 2) ''$layer'' (LayerRef 7)"
    by (simp del: featureGeometry.simps)
  from t [where geometry = "Point (Vec2 0 0)" and properties = "[]", THEN conjunct2]
  obtain tf where ef: "?f = [] @ tf"
    and pf: "\<forall>i entity. i < length tf \<and> isPrimitive (fst (tf ! i)) \<and> snd (tf ! i) = Inr entity
        \<longrightarrow> (\<exists>layerData child. (LayersAdd layerData, Inr child) \<in> set (take i tf)
              \<and> Suc i < length tf
              \<and> fst (tf ! Suc i) = Setx (EntityRef entity) ''$layer'' (LayerRef child))"
    by (elim exE conjE)
  from ef f have tf: "tf = [(ItemById ''SmdxElement'', Inr 0),
                 (LayersAdd [(''$type'', TypeRef 0), (''name'', Name [])], Inr 1),
                 (SetDisabled 1 True, Inr 2),
                 (AddCircle [0, 0, 0] 0.005, Inr 3),
                 (Setx (EntityRef 3) ''$layer'' (LayerRef 1), Inr 4)]"
    by simp
  from pf [rule_format, of 3 3]
  have "\<exists>layerData child. (LayersAdd layerData, Inr child) \<in> set (take 3 tf)
      \<and> fst (tf ! 4) = Setx (EntityRef 3) ''$layer'' (LayerRef child)"
    unfolding tf by (simp add: eval_nat_numeral)
  then have "(LayersAdd [(''$type'', TypeRef 0), (''name'', Name [])], Inr 1) \<in> set (take 3 tf)
      \<and> fst (tf ! 4) = Setx (EntityRef 3) ''$layer'' (LayerRef 1)"
    unfolding tf by (auto simp: eval_nat_numeral)
  with tf f have b: "(LayersAdd [(''$type'', TypeRef 0), (''name'', Name [])], Inr 1)
        \<in> set (take 3 ?f)
      \<and> fst (?f ! 4) = Setx (EntityRef 3) ''$layer'' (LayerRef 1)"
    by simp
  from a b show ?thesis by (simp del: featureGeometry.simps)
qed

text \<open>
  \<^bold>\<open>C2\<close>. When the parser returns a value whose top-level tag is not
  \<^verbatim>\<open>FeatureCollection\<close>, the body of the loop of \<open>loadShapes\<close> for that group calls the parser,
  emits the diagnostic and returns: it calls neither the drawing nor the editor, so no layer
  and no primitive is created for the group, and the loop goes on with the next group.
\<close>

theorem loadGroup_skips_unsupported_geojson:
  "shp H shapeGroup = Inr (OtherGeoJSON type) \<Longrightarrow>
   loadGroup H (name, shapeGroup) h =
     (Inr (), h @ [(Shp shapeGroup, Inr 0),
                   (ConsoleError (''Unsupported GeoJSON type '' @ type), Inr 0)])"
  by (simp add: loadGroup_def bindIO_def external_def emit_def)

theorem loadGroup_skips_unsupported_geojson_witness:
  "loadGroup topologyHost (''roads'', [(''shp'', [1])]) [] =
     (Inr (), [(Shp [(''shp'', [1])], Inr 0),
               (ConsoleError ''Unsupported GeoJSON type Topology'', Inr 0)])"
proof -
  have "shp topologyHost [(''shp'', [1])] = Inr (OtherGeoJSON ''Topology'')"
    by (simp add: topologyHost_def)
  from loadGroup_skips_unsupported_geojson [OF this, of "''roads''" "[]"]
  show ?thesis by simp
qed

section \<open>Properties of the import operation\<close>


lemma calm_simps [simp]:
  "calm []"
  "calm (ev # t) \<longleftrightarrow> quiet (fst ev) \<and> returned (snd ev) \<and> calm t"
  "calm (a @ b) \<longleftrightarrow> calm a \<and> calm b"
  by (auto simp: calm_def)

















lemma report_simps [simp]:
  "report None = []" "report (Some e) = [(OutputsError e, Inr 0)]"
  by (simp_all add: report_def)









end
